theory Spec2Isabelle
  imports Main
begin

section \<open>The static file server of web\_server.py\<close>

text \<open>
  The script has two parts: the class \<open>MyHandler\<close>, which overrides the one method
  \<open>log_message\<close> of the request handler it inherits, and the main block, which
  changes the working directory, builds the server, prints two lines and serves until
  it is interrupted. Both are embedded below over an explicit state of the process.
  Calls into the Python runtime and its library (\<open>os.chdir\<close>, \<open>HTTPServer(...)\<close>,
  \<open>print\<close>, \<open>sys.stdout\<close>, \<open>serve_forever\<close>, \<open>server_close\<close>) are primitives with
  their documented effect on that state. The string operator \<open>%\<close> is a parameter of
  \<open>log_message\<close>. The methods of \<open>http.server.BaseHTTPRequestHandler\<close> that call
  \<open>log_message\<close> (\<open>log_request\<close>, \<open>log_error\<close>, \<open>send_response\<close>, \<open>send_error\<close>) and
  the one it calls (\<open>log_date_time_string\<close>) are embedded from the library, as far as
  they concern the log; the handling of one request as a whole is a parameter.
\<close>

subsection \<open>Values, exceptions and the state of the process\<close>

text \<open>The arguments that reach \<open>format % args\<close>: strings and integers.\<close>

datatype pyval = PStr string | PInt int

datatype exn =
    FileNotFoundError string
  | NotADirectoryError string
  | OSError_EADDRINUSE string nat
  | KeyboardInterrupt
  | TypeError
  | ValueError

text \<open>The system calls whose order matters, recorded as the process makes them.\<close>

datatype syscall = Chdir string | Bind string nat | CloseSocket

text \<open>
  The local time as \<open>time.localtime\<close> returns it (the fields the log uses); its month
  is one of the twelve.
\<close>

datatype month = Jan | Feb | Mar | Apr | May | Jun | Jul | Aug | Sep | Oct | Nov | Dec

record tm =
  tm_year :: nat
  tm_mon :: month
  tm_mday :: nat
  tm_hour :: nat
  tm_min :: nat
  tm_sec :: nat

text \<open>
  A socket of another process that is bound to a port: whether it was bound with
  \<open>SO_REUSEADDR\<close>, and whether it listens.
\<close>

record bound_socket =
  sock_port :: nat
  so_reuseaddr :: bool
  sock_listening :: bool

text \<open>
  The state of the process and of what it sees of the machine: the directories and the
  regular files that exist, the sockets of other processes, its own listening socket,
  standard output (what is buffered and what has been written), the tracebacks printed
  on standard error, and the clock: \<open>clock w n\<close> is the local time at the \<open>n\<close>-th
  reading, \<open>clock_reads\<close> counts the readings made.
\<close>

record world =
  dirs :: "string list"
  files :: "string list"
  cwd :: string
  other_sockets :: "bound_socket list"
  listening :: "(string \<times> nat) option"
  stdout_buffer :: string
  stdout_written :: string
  stderr_tracebacks :: "exn list"
  calls :: "syscall list"
  clock :: "nat \<Rightarrow> tm"
  clock_reads :: nat

text \<open>
  A statement returns, raises, or has not come back (the process is still blocked in
  it); each carries the state reached.
\<close>

datatype outcome = Returned world | Raised exn world | Blocked world

fun then_do :: "outcome \<Rightarrow> (world \<Rightarrow> outcome) \<Rightarrow> outcome" where
  "then_do (Returned w) f = f w"
| "then_do (Raised e w) f = Raised e w"
| "then_do (Blocked w) f = Blocked w"

fun try_except_KeyboardInterrupt :: "outcome \<Rightarrow> (world \<Rightarrow> outcome) \<Rightarrow> outcome" where
  "try_except_KeyboardInterrupt (Raised e w) h =
     (if e = KeyboardInterrupt then h w else Raised e w)"
| "try_except_KeyboardInterrupt (Returned w) h = Returned w"
| "try_except_KeyboardInterrupt (Blocked w) h = Blocked w"

definition nl :: char where
  "nl = CHR 0x0A"

definition dq :: char where
  "dq = CHR 0x22"

subsection \<open>Decimal text of integers\<close>

definition digit_char :: "nat \<Rightarrow> char" where
  "digit_char d = ''0123456789'' ! (d mod 10)"

fun str_nat :: "nat \<Rightarrow> string" where
  "str_nat n = (if n < 10 then [digit_char n] else str_nat (n div 10) @ [digit_char n])"

declare str_nat.simps [simp del]

definition str_int :: "int \<Rightarrow> string" where
  "str_int i = (if i < 0 then CHR ''-'' # str_nat (nat (- i)) else str_nat (nat i))"

fun str :: "pyval \<Rightarrow> string" where
  "str (PStr s) = s"
| "str (PInt i) = str_int i"

subsection \<open>The operator \<open>format % args\<close>\<close>

text \<open>
  \<open>pct_format\<close> says what Python's \<open>format % args\<close> gives for the formats whose only
  conversions are \<open>%s\<close>, \<open>%d\<close> and \<open>%%\<close>, where \<open>args\<close> is a tuple of strings and
  integers (the tuple collected by \<open>*args\<close>). The format is converted left to right:
  too few arguments and a string given to \<open>%d\<close> raise \<open>TypeError\<close>, a lone \<open>%\<close> at the
  end raises \<open>ValueError\<close>, arguments left over at the end raise \<open>TypeError\<close>. On a
  format with any other conversion (flags, widths, \<open>%r\<close>, ...) it says nothing: \<open>None\<close>.
\<close>

fun prepend :: "string \<Rightarrow> (exn + string) option \<Rightarrow> (exn + string) option" where
  "prepend s None = None"
| "prepend s (Some (Inl e)) = Some (Inl e)"
| "prepend s (Some (Inr t)) = Some (Inr (s @ t))"

fun pct_format :: "string \<Rightarrow> pyval list \<Rightarrow> (exn + string) option" where
  "pct_format [] [] = Some (Inr [])"
| "pct_format [] (a # as) = Some (Inl TypeError)"
| "pct_format [c] args =
     (if c = CHR ''%'' then Some (Inl ValueError) else prepend [c] (pct_format [] args))"
| "pct_format (c # k # rest) args =
     (if c \<noteq> CHR ''%'' then prepend [c] (pct_format (k # rest) args)
      else if k = CHR ''%'' then prepend ''%'' (pct_format rest args)
      else if k = CHR ''s'' then
        (case args of
           [] \<Rightarrow> Some (Inl TypeError)
         | a # as \<Rightarrow> prepend (str a) (pct_format rest as))
      else if k = CHR ''d'' then
        (case args of
           [] \<Rightarrow> Some (Inl TypeError)
         | PStr s # as \<Rightarrow> Some (Inl TypeError)
         | PInt i # as \<Rightarrow> prepend (str_int i) (pct_format rest as))
      else None)"

text \<open>
  An operator \<open>percent\<close> is Python's \<open>%\<close> as far as these formats go when it gives what
  \<open>pct_format\<close> says wherever that says something.
\<close>

definition implements_percent :: "(string \<Rightarrow> pyval list \<Rightarrow> exn + string) \<Rightarrow> bool" where
  "implements_percent percent =
     (\<forall>format args r. pct_format format args = Some r \<longrightarrow> percent format args = r)"

subsection \<open>Standard output\<close>

definition sys_stdout_write :: "string \<Rightarrow> world \<Rightarrow> world" where
  "sys_stdout_write s w = w\<lparr>stdout_buffer := stdout_buffer w @ s\<rparr>"

definition sys_stdout_flush :: "world \<Rightarrow> world" where
  "sys_stdout_flush w =
     w\<lparr>stdout_written := stdout_written w @ stdout_buffer w, stdout_buffer := []\<rparr>"

definition print :: "string \<Rightarrow> world \<Rightarrow> world" where
  "print s w = sys_stdout_write (s @ [nl]) w"

subsection \<open>The time of a log line\<close>

text \<open>
  Inherited from \<open>BaseHTTPRequestHandler\<close>:
  \<^verbatim>\<open>
  def log_date_time_string(self):
      now = time.time()
      year, month, day, hh, mm, ss, x, y, z = time.localtime(now)
      s = "%02d/%3s/%04d %02d:%02d:%02d" % (
              day, self.monthname[month], year, hh, mm, ss)
      return s
  \<close>
  \<open>%02d\<close> and \<open>%04d\<close> write a number that is not negative in decimal, with zeros in
  front up to the width; \<open>%3s\<close> writes a string with spaces in front up to three
  characters.
\<close>

definition zero_pad :: "nat \<Rightarrow> nat \<Rightarrow> string" where
  "zero_pad width n = replicate (width - length (str_nat n)) CHR ''0'' @ str_nat n"

definition space_pad :: "nat \<Rightarrow> string \<Rightarrow> string" where
  "space_pad width s = replicate (width - length s) CHR '' '' @ s"

fun monthname :: "month \<Rightarrow> string" where
  "monthname Jan = ''Jan''"
| "monthname Feb = ''Feb''"
| "monthname Mar = ''Mar''"
| "monthname Apr = ''Apr''"
| "monthname May = ''May''"
| "monthname Jun = ''Jun''"
| "monthname Jul = ''Jul''"
| "monthname Aug = ''Aug''"
| "monthname Sep = ''Sep''"
| "monthname Oct = ''Oct''"
| "monthname Nov = ''Nov''"
| "monthname Dec = ''Dec''"

definition time_localtime :: "world \<Rightarrow> tm \<times> world" where
  "time_localtime w = (clock w (clock_reads w), w\<lparr>clock_reads := Suc (clock_reads w)\<rparr>)"

definition date_text :: "tm \<Rightarrow> string" where
  "date_text t =
     zero_pad 2 (tm_mday t) @ ''/'' @ space_pad 3 (monthname (tm_mon t)) @ ''/''
     @ zero_pad 4 (tm_year t) @ '' '' @ zero_pad 2 (tm_hour t) @ '':''
     @ zero_pad 2 (tm_min t) @ '':'' @ zero_pad 2 (tm_sec t)"

definition log_date_time_string :: "world \<Rightarrow> string \<times> world" where
  "log_date_time_string w = (case time_localtime w of (t, w1) \<Rightarrow> (date_text t, w1))"

subsection \<open>\<open>MyHandler.log_message\<close>\<close>

text \<open>
  \<^verbatim>\<open>
  def log_message(self, format, *args):
      sys.stdout.write(f"{self.log_date_time_string()} - {format%args}\n")
      sys.stdout.flush()
  \<close>
  The first argument is the operator \<open>%\<close>. The time is read first; if \<open>format % args\<close>
  raises then, nothing has been written.
\<close>

definition log_message ::
  "(string \<Rightarrow> 'v list \<Rightarrow> exn + string) \<Rightarrow> string \<Rightarrow> 'v list \<Rightarrow> world \<Rightarrow> outcome" where
  "log_message percent format args w =
     (case log_date_time_string w of
        (date, w1) \<Rightarrow>
          (case percent format args of
             Inl e \<Rightarrow> Raised e w1
           | Inr msg \<Rightarrow>
               Returned (sys_stdout_flush (sys_stdout_write (date @ '' - '' @ msg @ [nl]) w1))))"

subsection \<open>The inherited methods that log\<close>

text \<open>
  From \<open>BaseHTTPRequestHandler\<close>; \<open>self.requestline\<close> is the first line of the request
  without its line end. A status is an integer (an \<open>HTTPStatus\<close> is taken by its value),
  or the string \<open>-\<close>.
  \<^verbatim>\<open>
  def log_request(self, code='-', size='-'):
      if isinstance(code, HTTPStatus):
          code = code.value
      self.log_message('"%s" %s %s',
                       self.requestline, str(code), str(size))

  def log_error(self, format, *args):
      self.log_message(format, *args)
  \<close>
\<close>

definition access_format :: string where
  "access_format = [dq] @ ''%s'' @ [dq] @ '' %s %s''"

definition log_request ::
  "(string \<Rightarrow> pyval list \<Rightarrow> exn + string) \<Rightarrow> string \<Rightarrow> pyval \<Rightarrow> pyval \<Rightarrow> world \<Rightarrow> outcome" where
  "log_request percent requestline code sz w =
     log_message percent access_format [PStr requestline, PStr (str code), PStr (str sz)] w"


text \<open>
  \<^verbatim>\<open>
  def send_response(self, code, message=None):
      self.log_request(code)
      self.send_response_only(code, message)
      self.send_header('Server', self.version_string())
      self.send_header('Date', self.date_time_string())
  \<close>
  After logging the request, \<open>send_response\<close> puts the status line and two headers
  into the buffer of the connection, which is not part of this state.
\<close>

definition send_response ::
  "(string \<Rightarrow> pyval list \<Rightarrow> exn + string) \<Rightarrow> string \<Rightarrow> pyval \<Rightarrow> world \<Rightarrow> outcome" where
  "send_response percent requestline code w =
     log_request percent requestline code (PStr ''-'') w"


subsection \<open>The form of a log line in the specification\<close>

text \<open>
  The line the specification gives for a request:
  \<open><date> - "<METHOD> <path> HTTP/<ver>" <status> <size>\<close>, the part between the
  quotes being the request line.
\<close>

definition access_log_line :: "string \<Rightarrow> string \<Rightarrow> string \<Rightarrow> string \<Rightarrow> string" where
  "access_log_line date requestline status sz =
     date @ '' - '' @ [dq] @ requestline @ [dq] @ '' '' @ status @ '' '' @ sz @ [nl]"








subsection \<open>The main block\<close>

definition webroot :: string where
  "webroot = ''/home/user/webapp''"

definition port :: nat where
  "port = 8000"

text \<open>
  \<open>os.chdir(path)\<close>: raises \<open>NotADirectoryError\<close> when the path is a regular file and
  \<open>FileNotFoundError\<close> when nothing is there. Permissions are not modelled: every
  directory that exists can be entered.
\<close>

definition os_chdir :: "string \<Rightarrow> world \<Rightarrow> outcome" where
  "os_chdir path w =
     (let w1 = w\<lparr>calls := calls w @ [Chdir path]\<rparr>
      in if path \<in> set (dirs w) then Returned (w1\<lparr>cwd := path\<rparr>)
         else if path \<in> set (files w) then Raised (NotADirectoryError path) w1
         else Raised (FileNotFoundError path) w1)"

definition os_getcwd :: "world \<Rightarrow> string" where
  "os_getcwd w = cwd w"

text \<open>
  \<open>HTTPServer((host, port), MyHandler)\<close>: the constructor creates the socket, sets
  \<open>SO_REUSEADDR\<close> on it (\<open>allow_reuse_address = 1\<close> in \<open>http.server.HTTPServer\<close>), binds
  it and listens. With that option the bind fails, with \<open>OSError\<close> (address already in
  use), when another socket on the port listens or was bound without the option; beside
  a socket that is bound with the option and does not listen it succeeds. After a
  failure the constructor closes its socket before re-raising.
\<close>

definition ports_in_use :: "world \<Rightarrow> nat list" where
  "ports_in_use w =
     map sock_port (filter (\<lambda>s. sock_listening s \<or> \<not> so_reuseaddr s) (other_sockets w))"

definition HTTPServer :: "string \<times> nat \<Rightarrow> world \<Rightarrow> outcome" where
  "HTTPServer addr w =
     (let w1 = w\<lparr>calls := calls w @ [Bind (fst addr) (snd addr)]\<rparr>
      in if snd addr \<in> set (ports_in_use w)
         then Raised (OSError_EADDRINUSE (fst addr) (snd addr))
                (w1\<lparr>calls := calls w1 @ [CloseSocket]\<rparr>)
         else Returned (w1\<lparr>listening := Some addr\<rparr>))"

definition server_close :: "world \<Rightarrow> world" where
  "server_close w = w\<lparr>listening := None, calls := calls w @ [CloseSocket]\<rparr>"

text \<open>
  What reaches the process while it serves: a connection carrying a request, or the
  interrupt signal, which Python raises as \<open>KeyboardInterrupt\<close> in the main thread.
  A signal that arrives before the process serves is not modelled.
\<close>

datatype 'r event = Connection 'r | SIGINT

text \<open>
  \<open>server.serve_forever()\<close>: handles what arrives, one event after the other, and never
  returns by itself. The first argument is the handling of one accepted connection by
  the inherited code. With no event left the process is still waiting in the loop.
\<close>

fun serve_forever :: "('r \<Rightarrow> world \<Rightarrow> world) \<Rightarrow> 'r event list \<Rightarrow> world \<Rightarrow> outcome" where
  "serve_forever handle [] w = Blocked w"
| "serve_forever handle (SIGINT # evs) w = Raised KeyboardInterrupt w"
| "serve_forever handle (Connection r # evs) w = serve_forever handle evs (handle r w)"

text \<open>
  \<^verbatim>\<open>
  os.chdir('/home/user/webapp')
  port = 8000
  server = HTTPServer(('0.0.0.0', port), MyHandler)
  print(f"Server running on port {port}")
  print(f"Serving directory: {os.getcwd()}")
  sys.stdout.flush()
  try:
      server.serve_forever()
  except KeyboardInterrupt:
      print("\nServer stopped.")
      server.server_close()
  \<close>
\<close>

definition main :: "('r \<Rightarrow> world \<Rightarrow> world) \<Rightarrow> 'r event list \<Rightarrow> world \<Rightarrow> outcome" where
  "main handle evs w =
     then_do (os_chdir webroot w) (\<lambda>w.
     then_do (HTTPServer (''0.0.0.0'', port) w) (\<lambda>w.
     then_do (Returned (print (''Server running on port '' @ str_nat port) w)) (\<lambda>w.
     then_do (Returned (print (''Serving directory: '' @ os_getcwd w) w)) (\<lambda>w.
     then_do (Returned (sys_stdout_flush w)) (\<lambda>w.
     try_except_KeyboardInterrupt (serve_forever handle evs w) (\<lambda>w.
       then_do (Returned (print (nl # ''Server stopped.'') w)) (\<lambda>w.
       Returned (server_close w))))))))"

text \<open>
  The interpreter around the script: when the script ends, standard output is flushed
  and the exit status is 0; an exception nobody caught has its traceback printed on
  standard error and the status is 1 (an uncaught \<open>KeyboardInterrupt\<close> ends the process
  by the signal, status 130). A process still blocked has no exit status.
\<close>

fun python :: "outcome \<Rightarrow> nat option \<times> world" where
  "python (Returned w) = (Some 0, sys_stdout_flush w)"
| "python (Raised e w) =
     (Some (if e = KeyboardInterrupt then 130 else 1),
      sys_stdout_flush (w\<lparr>stderr_tracebacks := stderr_tracebacks w @ [e]\<rparr>))"
| "python (Blocked w) = (None, w)"

definition run :: "('r \<Rightarrow> world \<Rightarrow> world) \<Rightarrow> 'r event list \<Rightarrow> world \<Rightarrow> nat option \<times> world" where
  "run handle evs w = python (main handle evs w)"

subsection \<open>States and inputs used in the examples\<close>

text \<open>A fresh process on a machine where the web root exists and port 8000 is free.\<close>

definition tm0 :: tm where
  "tm0 = \<lparr>tm_year = 2026, tm_mon = Nov, tm_mday = 4,
           tm_hour = 10, tm_min = 0, tm_sec = 0\<rparr>"

definition world0 :: world where
  "world0 = \<lparr>dirs = [webroot], files = [], cwd = ''/'', other_sockets = [],
     listening = None, stdout_buffer = [], stdout_written = [], stderr_tracebacks = [],
     calls = [], clock = (\<lambda>n. tm0), clock_reads = 0\<rparr>"




text \<open>
  An operator \<open>%\<close> for the examples: what \<open>pct_format\<close> says, and \<open>ValueError\<close> on the
  formats it says nothing about (none of them occurs in the examples).
\<close>

definition percent_fragment :: "string \<Rightarrow> pyval list \<Rightarrow> exn + string" where
  "percent_fragment format args =
     (case pct_format format args of Some r \<Rightarrow> r | None \<Rightarrow> Inl ValueError)"


text \<open>The state an outcome carries.\<close>

fun logged :: "outcome \<Rightarrow> world" where
  "logged (Returned w) = w"
| "logged (Raised e w) = w"
| "logged (Blocked w) = w"

text \<open>
  A stand-in for the inherited handling of a connection: it answers every request with
  \<open>send_response(200)\<close>; the request is its request line.
\<close>

definition handle_ok :: "string \<Rightarrow> world \<Rightarrow> world" where
  "handle_ok requestline w =
     logged (send_response percent_fragment requestline (PInt 200) w)"

text \<open>The state in which \<open>serve_forever\<close> starts when the start-up succeeded.\<close>

definition started :: "world \<Rightarrow> world" where
  "started w = w\<lparr>cwd := webroot,
      calls := calls w @ [Chdir webroot, Bind ''0.0.0.0'' port],
      listening := Some (''0.0.0.0'', port),
      stdout_written := stdout_written w @ stdout_buffer w
         @ ''Server running on port 8000'' @ [nl]
         @ ''Serving directory: '' @ webroot @ [nl],
      stdout_buffer := []\<rparr>"

section \<open>Properties\<close>

subsection \<open>Formatting\<close>


lemma str_int_200: "str_int 200 = ''200''"
  by (simp add: str_int_def str_nat.simps digit_char_def)

lemma pct_format_access:
  "pct_format access_format [PStr rl, PStr st, PStr sz]
     = Some (Inr ([dq] @ rl @ [dq] @ '' '' @ st @ '' '' @ sz))"
  by (simp add: access_format_def dq_def)


lemma implements_percent_fragment: "implements_percent percent_fragment"
  by (simp add: implements_percent_def percent_fragment_def)

lemma log_message_returns:
  assumes "percent format args = Inr msg"
  shows "log_message percent format args w =
    Returned (w\<lparr>clock_reads := Suc (clock_reads w),
                 stdout_written := stdout_written w @ stdout_buffer w
                   @ date_text (clock w (clock_reads w)) @ '' - '' @ msg @ [nl],
                 stdout_buffer := []\<rparr>)"
  using assms
  by (simp add: log_message_def log_date_time_string_def time_localtime_def
      sys_stdout_flush_def sys_stdout_write_def)

lemma send_response_logs:
  assumes "implements_percent percent"
  shows "send_response percent rl code w =
    Returned (w\<lparr>clock_reads := Suc (clock_reads w),
                 stdout_written := stdout_written w @ stdout_buffer w
                   @ access_log_line (date_text (clock w (clock_reads w))) rl (str code) ''-'',
                 stdout_buffer := []\<rparr>)"
proof -
  have "percent access_format [PStr rl, PStr (str code), PStr (str (PStr ''-''))]
      = Inr ([dq] @ rl @ [dq] @ '' '' @ str code @ '' '' @ str (PStr ''-''))"
    using assms pct_format_access unfolding implements_percent_def by blast
  then show ?thesis
    by (simp add: send_response_def log_request_def access_log_line_def
        log_message_returns [where percent = percent])
qed





subsection \<open>The date of a log line\<close>



lemma length_str_nat_pos: "0 < length (str_nat n)"
  by (simp add: str_nat.simps [of n])













lemma date_text_tm0: "date_text tm0 = ''04/Nov/2026 10:00:00''"
  by (simp add: tm0_def date_text_def zero_pad_def space_pad_def str_nat.simps digit_char_def)


subsection \<open>The log lines of a request\<close>




subsection \<open>Start-up\<close>

lemma main_missing_root:
  assumes "webroot \<notin> set (dirs w)"
  shows "main handle evs w =
    Raised (if webroot \<in> set (files w) then NotADirectoryError webroot
            else FileNotFoundError webroot)
      (w\<lparr>calls := calls w @ [Chdir webroot]\<rparr>)"
  using assms by (simp add: main_def os_chdir_def Let_def)

lemma main_port_in_use:
  assumes "webroot \<in> set (dirs w)" and "port \<in> set (ports_in_use w)"
  shows "main handle evs w = Raised (OSError_EADDRINUSE ''0.0.0.0'' port)
           (w\<lparr>calls := calls w @ [Chdir webroot, Bind ''0.0.0.0'' port, CloseSocket],
              cwd := webroot\<rparr>)"
  using assms by (simp add: main_def os_chdir_def HTTPServer_def Let_def ports_in_use_def)

lemma main_started:
  assumes "webroot \<in> set (dirs w)" and "port \<notin> set (ports_in_use w)"
  shows "main handle evs w =
     try_except_KeyboardInterrupt (serve_forever handle evs (started w)) (\<lambda>w.
       then_do (Returned (print (nl # ''Server stopped.'') w)) (\<lambda>w.
       Returned (server_close w)))"
  using assms
  by (simp add: main_def os_chdir_def HTTPServer_def Let_def print_def sys_stdout_write_def
      sys_stdout_flush_def os_getcwd_def started_def str_nat.simps digit_char_def port_def
      ports_in_use_def)




text \<open>
  C9. When the web root is missing the process ends with status 1 after its \<open>chdir\<close>
  and nothing else: no socket was bound and its listening socket is as it was (none,
  in a fresh process). When the web root exists, the \<open>bind\<close> of the server socket comes
  directly after the \<open>chdir\<close>, never before it.
\<close>

theorem missing_root_leaves_no_socket:
  "(webroot \<notin> set (dirs w) \<longrightarrow>
       fst (run handle evs w) = Some 1
     \<and> calls (snd (run handle evs w)) = calls w @ [Chdir webroot]
     \<and> listening (snd (run handle evs w)) = listening w)
   \<and> (webroot \<in> set (dirs w) \<longrightarrow>
       (\<exists>rest. calls (snd (run handle [] w))
          = calls w @ [Chdir webroot, Bind ''0.0.0.0'' port] @ rest))"
proof (intro conjI impI)
  assume "webroot \<notin> set (dirs w)"
  then show "fst (run handle evs w) = Some 1"
    and "calls (snd (run handle evs w)) = calls w @ [Chdir webroot]"
    and "listening (snd (run handle evs w)) = listening w"
    by (simp_all add: run_def main_missing_root sys_stdout_flush_def)
next
  assume r: "webroot \<in> set (dirs w)"
  show "\<exists>rest. calls (snd (run handle [] w))
          = calls w @ [Chdir webroot, Bind ''0.0.0.0'' port] @ rest"
  proof (cases "port \<in> set (ports_in_use w)")
    case True
    with r have "calls (snd (run handle [] w))
        = calls w @ [Chdir webroot, Bind ''0.0.0.0'' port] @ [CloseSocket]"
      by (simp add: run_def main_port_in_use sys_stdout_flush_def)
    then show ?thesis by blast
  next
    case False
    with r have "calls (snd (run handle [] w))
        = calls w @ [Chdir webroot, Bind ''0.0.0.0'' port] @ []"
      by (simp add: run_def main_started started_def)
    then show ?thesis by blast
  qed
qed

text \<open>The theorem on a machine without the web root, and on one with it.\<close>

theorem missing_root_leaves_no_socket_witness:
  "webroot \<notin> set (dirs (world0\<lparr>dirs := [''/home/user'']\<rparr>))
   \<and> fst (run handle_ok [Connection ''GET / HTTP/1.1''] (world0\<lparr>dirs := [''/home/user'']\<rparr>))
       = Some 1
   \<and> calls (snd (run handle_ok [Connection ''GET / HTTP/1.1''] (world0\<lparr>dirs := [''/home/user'']\<rparr>)))
       = [Chdir ''/home/user/webapp'']
   \<and> listening
        (snd (run handle_ok [Connection ''GET / HTTP/1.1''] (world0\<lparr>dirs := [''/home/user'']\<rparr>)))
       = None
   \<and> webroot \<in> set (dirs world0)
   \<and> calls (snd (run handle_ok [] world0))
       = [Chdir ''/home/user/webapp'', Bind ''0.0.0.0'' 8000]"
proof -
  have a: "webroot \<notin> set (dirs (world0\<lparr>dirs := [''/home/user'']\<rparr>))"
    by (simp add: world0_def webroot_def)
  have b: "webroot \<in> set (dirs world0)"
    by (simp add: world0_def)
  have p: "port \<notin> set (ports_in_use world0)"
    by (simp add: world0_def ports_in_use_def)
  have c: "calls (snd (run handle_ok [] world0))
       = [Chdir ''/home/user/webapp'', Bind ''0.0.0.0'' 8000]"
    unfolding run_def main_started [OF b p]
    by (simp add: started_def world0_def webroot_def port_def)
  show ?thesis
    using a b c
      missing_root_leaves_no_socket [where w = "world0\<lparr>dirs := [''/home/user'']\<rparr>"
        and handle = handle_ok and evs = "[Connection ''GET / HTTP/1.1'']"]
    by (simp add: world0_def webroot_def)
qed

subsection \<open>Shutdown\<close>

lemma serve_forever_interrupted:
  "serve_forever handle (evs1 @ SIGINT # evs2) w = serve_forever handle (evs1 @ [SIGINT]) w"
proof (induction evs1 arbitrary: w)
  case Nil
  show ?case by simp
next
  case (Cons ev evs1)
  then show ?case by (cases ev) simp_all
qed

lemma serve_forever_raises:
  "\<exists>w'. serve_forever handle (evs1 @ SIGINT # evs2) w = Raised KeyboardInterrupt w'"
proof (induction evs1 arbitrary: w)
  case Nil
  show ?case by simp
next
  case (Cons ev evs1)
  then show ?case by (cases ev) simp_all
qed

text \<open>
  C6. After a successful start-up, whatever connections were handled before it, the
  interrupt signal ends the process with exit status 0; the listening socket is
  closed, and closing it is the last thing the process does; standard output ends with
  the line \<open>Server stopped.\<close> (after an empty line) and nothing is left in its buffer;
  and connections that arrive after the signal change nothing: they are not accepted.
\<close>

theorem interrupt_stops_server:
  assumes "webroot \<in> set (dirs w)" and "port \<notin> set (ports_in_use w)"
  shows "fst (run handle (evs1 @ SIGINT # evs2) w) = Some 0
    \<and> listening (snd (run handle (evs1 @ SIGINT # evs2) w)) = None
    \<and> (\<exists>before. calls (snd (run handle (evs1 @ SIGINT # evs2) w)) = before @ [CloseSocket])
    \<and> stdout_buffer (snd (run handle (evs1 @ SIGINT # evs2) w)) = []
    \<and> (\<exists>before. stdout_written (snd (run handle (evs1 @ SIGINT # evs2) w))
           = before @ [nl] @ ''Server stopped.'' @ [nl])
    \<and> run handle (evs1 @ SIGINT # evs2) w = run handle (evs1 @ [SIGINT]) w"
proof -
  let ?r = "run handle (evs1 @ SIGINT # evs2) w"
  obtain w' where s:
    "serve_forever handle (evs1 @ SIGINT # evs2) (started w) = Raised KeyboardInterrupt w'"
    using serve_forever_raises by blast
  have m: "main handle (evs1 @ SIGINT # evs2) w =
      Returned (server_close (print (nl # ''Server stopped.'') w'))"
    using assms by (simp add: main_started s)
  have e: "main handle (evs1 @ SIGINT # evs2) w = main handle (evs1 @ [SIGINT]) w"
    using assms by (simp add: main_started serve_forever_interrupted [of handle evs1 evs2])
  have "stdout_written (snd ?r)
      = (stdout_written w' @ stdout_buffer w') @ [nl] @ ''Server stopped.'' @ [nl]"
    by (simp add: run_def m server_close_def print_def sys_stdout_write_def
        sys_stdout_flush_def)
  then have out: "\<exists>before. stdout_written (snd ?r) = before @ [nl] @ ''Server stopped.'' @ [nl]"
    by blast
  have "calls (snd ?r) = calls w' @ [CloseSocket]"
    by (simp add: run_def m server_close_def print_def sys_stdout_write_def
        sys_stdout_flush_def)
  then have cl: "\<exists>before. calls (snd ?r) = before @ [CloseSocket]"
    by blast
  have st: "fst ?r = Some 0"
    by (simp add: run_def m)
  have li: "listening (snd ?r) = None"
    by (simp add: run_def m server_close_def print_def sys_stdout_write_def
        sys_stdout_flush_def)
  have bu: "stdout_buffer (snd ?r) = []"
    by (simp add: run_def m server_close_def print_def sys_stdout_write_def
        sys_stdout_flush_def)
  have eq: "?r = run handle (evs1 @ [SIGINT]) w"
    by (simp add: run_def e)
  from st li cl bu out eq show ?thesis
    by (intro conjI)
qed

text \<open>
  The theorem on one request served, then the signal, then a connection that comes too
  late: the output is the two start-up lines, the log line of the one request and the
  closing message.
\<close>

theorem interrupt_stops_server_witness:
  "webroot \<in> set (dirs world0) \<and> port \<notin> set (ports_in_use world0)
   \<and> run handle_ok ([Connection ''GET / HTTP/1.1''] @ SIGINT # [Connection ''GET /late HTTP/1.1''])
         world0
     = (Some 0,
        world0\<lparr>cwd := ''/home/user/webapp'',
          calls := [Chdir ''/home/user/webapp'', Bind ''0.0.0.0'' 8000, CloseSocket],
          listening := None,
          stdout_written :=
            ''Server running on port 8000'' @ [nl]
            @ ''Serving directory: /home/user/webapp'' @ [nl]
            @ access_log_line ''04/Nov/2026 10:00:00'' ''GET / HTTP/1.1'' ''200'' ''-''
            @ [nl] @ ''Server stopped.'' @ [nl],
          clock_reads := 1\<rparr>)
   \<and> run handle_ok ([Connection ''GET / HTTP/1.1''] @ SIGINT # [Connection ''GET /late HTTP/1.1''])
         world0
     = run handle_ok ([Connection ''GET / HTTP/1.1''] @ [SIGINT]) world0"
proof -
  have a: "webroot \<in> set (dirs world0)"
    by (simp add: world0_def)
  have b: "port \<notin> set (ports_in_use world0)"
    by (simp add: world0_def ports_in_use_def)
  have r: "run handle_ok
      ([Connection ''GET / HTTP/1.1''] @ SIGINT # [Connection ''GET /late HTTP/1.1'']) world0
     = (Some 0,
        world0\<lparr>cwd := ''/home/user/webapp'',
          calls := [Chdir ''/home/user/webapp'', Bind ''0.0.0.0'' 8000, CloseSocket],
          listening := None,
          stdout_written :=
            ''Server running on port 8000'' @ [nl]
            @ ''Serving directory: /home/user/webapp'' @ [nl]
            @ access_log_line ''04/Nov/2026 10:00:00'' ''GET / HTTP/1.1'' ''200'' ''-''
            @ [nl] @ ''Server stopped.'' @ [nl],
          clock_reads := 1\<rparr>)"
    unfolding run_def main_started [OF a b]
    by (simp add: started_def handle_ok_def send_response_logs [OF implements_percent_fragment]
        str_int_200 date_text_tm0 server_close_def print_def sys_stdout_write_def
        sys_stdout_flush_def access_log_line_def world0_def webroot_def port_def)
  show ?thesis
    using a b r
      interrupt_stops_server [OF a b, of handle_ok "[Connection ''GET / HTTP/1.1'']"
        "[Connection ''GET /late HTTP/1.1'']"]
    by simp
qed

end
